theory Spec2Isabelle
  imports Main "HOL-Library.Word"
begin

unbundle bit_operations_syntax

section \<open>The predicate circuit \<open>ZKKYC\<close>\<close>

text \<open>
  The circuit is written against gnark's \<open>frontend.API\<close> and compiled over the scalar
  field of BN254 (\<open>ecc.BN254.ScalarField()\<close> in the circuit's tests). A
  \<open>frontend.Variable\<close> is an element of that field; it is modelled as the integer
  representing it, \<open>0 \<le> x < fieldModulus\<close>, and every operation of the API writes
  the reduction out.
\<close>

type_synonym Variable = int

definition fieldModulus :: int where
  "fieldModulus = 21888242871839275222246405745257275088548364400416034343698204186575808495617"

definition inField :: "Variable \<Rightarrow> bool" where
  "inField x \<longleftrightarrow> 0 \<le> x \<and> x < fieldModulus"

subsection \<open>The operations of \<open>frontend.API\<close> the circuit calls\<close>

definition api_Add :: "Variable \<Rightarrow> Variable \<Rightarrow> Variable" where
  "api_Add a b = (a + b) mod fieldModulus"

definition api_Sub :: "Variable \<Rightarrow> Variable \<Rightarrow> Variable" where
  "api_Sub a b = (a - b) mod fieldModulus"

definition api_Mul :: "Variable \<Rightarrow> Variable \<Rightarrow> Variable" where
  "api_Mul a b = (a * b) mod fieldModulus"

text \<open>\<open>IsZero\<close> returns 1 if its argument is zero, 0 otherwise.\<close>

definition api_IsZero :: "Variable \<Rightarrow> Variable" where
  "api_IsZero a = (if a = 0 then 1 else 0)"

text \<open>
  \<open>Cmp\<close> returns 1 if \<open>i1 > i2\<close>, 0 if \<open>i1 = i2\<close>, and \<open>-1\<close> if \<open>i1 < i2\<close>,
  comparing the two field elements as unsigned integers; \<open>-1\<close> is the field element
  \<open>fieldModulus - 1\<close>.
\<close>

definition api_Cmp :: "Variable \<Rightarrow> Variable \<Rightarrow> Variable" where
  "api_Cmp i1 i2 = (if i2 < i1 then 1 else if i1 = i2 then 0 else fieldModulus - 1)"

subsection \<open>The circuit structure\<close>

record ZKKYC =
  ActualAge :: Variable
  ActualJurisdiction :: Variable
  ActualAccredited :: Variable
  CredentialHash :: Variable
  PassportNumber :: Variable
  ExpiryDate :: Variable
  MinAge :: Variable
  AllowedJurisdictions :: "Variable list"
  RequireAccredited :: Variable
  CredentialHashPublic :: Variable
  RecipientAddress :: Variable
  CurrentDate :: Variable
  SanctionedCountries :: "Variable list"
  IsValid :: Variable
  Nullifier :: Variable
  PackedFlags :: Variable

text \<open>
  The two arrays have the Go type \<open>[10]frontend.Variable\<close>; an assignment is
  well formed when both lists have ten entries and every input is a field element.
\<close>

definition wellFormed :: "ZKKYC \<Rightarrow> bool" where
  "wellFormed c \<longleftrightarrow>
     inField (ActualAge c) \<and> inField (ActualJurisdiction c) \<and> inField (ActualAccredited c) \<and>
     inField (CredentialHash c) \<and> inField (PassportNumber c) \<and> inField (ExpiryDate c) \<and>
     inField (MinAge c) \<and> length (AllowedJurisdictions c) = 10 \<and>
     list_all inField (AllowedJurisdictions c) \<and> inField (RequireAccredited c) \<and>
     inField (CredentialHashPublic c) \<and> inField (RecipientAddress c) \<and>
     inField (CurrentDate c) \<and> length (SanctionedCountries c) = 10 \<and>
     list_all inField (SanctionedCountries c)"

subsection \<open>\<open>checkJurisdiction\<close>, \<open>checkSanctions\<close>, \<open>checkAccreditation\<close>\<close>

text \<open>The body of the first loop of \<open>checkJurisdiction\<close>: the value of \<open>matches[i]\<close>.\<close>

definition slotMatch :: "Variable \<Rightarrow> Variable \<Rightarrow> Variable" where
  "slotMatch actual slot =
     (let isNonZero = api_Cmp slot 0;
          diff = api_Sub actual slot;
          isMatch = api_IsZero diff
      in api_Mul isNonZero isMatch)"

text \<open>
  The first loop fills \<open>matches[0..9]\<close>, the second adds them up from 0, and the result
  is \<open>Cmp(sum, 0)\<close>.
\<close>

definition checkJurisdiction :: "Variable \<Rightarrow> Variable list \<Rightarrow> Variable" where
  "checkJurisdiction actual allowed =
     (let matches = map (\<lambda>i. slotMatch actual (allowed ! i)) [0..<10];
          sum = foldl api_Add 0 matches
      in api_Cmp sum 0)"

definition checkSanctions :: "Variable \<Rightarrow> Variable list \<Rightarrow> Variable" where
  "checkSanctions actual sanctioned =
     (let inSanctions = checkJurisdiction actual sanctioned
      in api_Sub 1 inSanctions)"

definition checkAccreditation :: "Variable \<Rightarrow> Variable \<Rightarrow> Variable" where
  "checkAccreditation actual required =
     (let notRequired = api_IsZero required;
          matches = api_IsZero (api_Sub actual required);
          one = 1;
          notRequiredComplement = api_Sub one notRequired;
          requiredAndMatches = api_Mul notRequiredComplement matches
      in api_Add notRequired requiredAndMatches)"

subsection \<open>\<open>Define\<close>\<close>

text \<open>The local variables of \<open>Define\<close>, each as a function of the circuit.\<close>

definition ageValid :: "ZKKYC \<Rightarrow> Variable" where
  "ageValid c = api_Cmp (ActualAge c) (MinAge c)"

definition isOver18 :: "ZKKYC \<Rightarrow> Variable" where
  "isOver18 c = api_Cmp (ActualAge c) 18"

definition isOver21 :: "ZKKYC \<Rightarrow> Variable" where
  "isOver21 c = api_Cmp (ActualAge c) 21"

definition jurisdictionValid :: "ZKKYC \<Rightarrow> Variable" where
  "jurisdictionValid c = checkJurisdiction (ActualJurisdiction c) (AllowedJurisdictions c)"

definition isNotSanctioned :: "ZKKYC \<Rightarrow> Variable" where
  "isNotSanctioned c = checkSanctions (ActualJurisdiction c) (SanctionedCountries c)"

definition expiryValid :: "ZKKYC \<Rightarrow> Variable" where
  "expiryValid c = api_Cmp (ExpiryDate c) (CurrentDate c)"

definition hashValid :: "ZKKYC \<Rightarrow> Variable" where
  "hashValid c =
     (let hashDiff = api_Sub (CredentialHash c) (CredentialHashPublic c)
      in api_IsZero hashDiff)"

definition accreditationValid :: "ZKKYC \<Rightarrow> Variable" where
  "accreditationValid c = checkAccreditation (ActualAccredited c) (RequireAccredited c)"

text \<open>
  \<open>Define\<close> assigns the three outputs and returns no error; the model returns the
  circuit with \<open>Nullifier\<close>, \<open>PackedFlags\<close> and \<open>IsValid\<close> assigned.
\<close>

definition Define :: "ZKKYC \<Rightarrow> ZKKYC" where
  "Define c =
     (let p1 = api_Add (isOver18 c) (api_Mul (isOver21 c) 2);
          p2 = api_Add (api_Mul (expiryValid c) 4) (api_Mul (isNotSanctioned c) 8)
      in c\<lparr> Nullifier := api_Mul (PassportNumber c) 1,
            PackedFlags := api_Add p1 p2,
            IsValid := api_Mul (ageValid c) (api_Mul (jurisdictionValid c)
                         (api_Mul (hashValid c) (api_Mul (accreditationValid c)
                           (api_Mul (expiryValid c) (isNotSanctioned c))))) \<rparr>)"

section \<open>The contracts\<close>

type_synonym address = "160 word"
type_synonym bytes32 = "256 word"
type_synonym uint256 = "256 word"

text \<open>What a call sees of its transaction: \<open>msg.sender\<close> and \<open>block.timestamp\<close>.\<close>

record Env =
  msg_sender :: address
  block_timestamp :: uint256

text \<open>
  A failed \<open>require\<close> reverts with its message; checked arithmetic reverts with a panic
  code (\<open>0x11\<close> for overflow and underflow); \<open>onlyRole\<close> and \<open>renounceRole\<close> revert with
  the custom errors of \<open>AccessControl\<close>. A reverted call changes no state, so a call
  returns either its error or the state after it.
\<close>

datatype error =
    Revert string
  | Panic nat
  | AccessControlUnauthorizedAccount address bytes32
  | AccessControlBadConfirmation

datatype event =
    RequirementsSet address uint256 "uint256 list" bool
  | AccessGranted address address bytes32 uint256
  | AccessRevoked address address uint256
  | CredentialIssued address bytes32 address uint256
  | CredentialRevoked bytes32 address uint256
  | IssuerAdded address string
  | IssuerRemoved address
  | NullifierRegistered bytes32 bytes32 address
  | RoleGranted bytes32 address address
  | RoleRevoked bytes32 address address

subsection \<open>\<open>CredentialRegistry\<close>\<close>

text \<open>
  A Solidity mapping is total, every key starting at the zero value, so each mapping is a
  function. \<open>roles\<close> is the role table the contract inherits from \<open>AccessControl\<close>.
\<close>

record CredentialRegistry =
  credentials :: "bytes32 \<Rightarrow> bool"
  credentialIssuers :: "bytes32 \<Rightarrow> address"
  revokedCredentials :: "bytes32 \<Rightarrow> bool"
  trustedIssuers :: "address \<Rightarrow> bool"
  issuerNames :: "address \<Rightarrow> string"
  nullifierOwners :: "bytes32 \<Rightarrow> address"
  userToCredential :: "address \<Rightarrow> bytes32"
  roles :: "bytes32 \<Rightarrow> address \<Rightarrow> bool"
  registryEvents :: "event list"

definition DEFAULT_ADMIN_ROLE :: bytes32 where
  "DEFAULT_ADMIN_ROLE = 0"

text \<open>\<open>keccak256("ISSUER_MANAGER_ROLE")\<close>, as a number.\<close>

definition ISSUER_MANAGER_ROLE :: bytes32 where
  "ISSUER_MANAGER_ROLE =
     52263986402952681723231884389553883708877199447016415362054833979934413359381"

definition hasRole :: "CredentialRegistry \<Rightarrow> bytes32 \<Rightarrow> address \<Rightarrow> bool" where
  "hasRole r role account = roles r role account"

definition grantRole_internal :: "Env \<Rightarrow> bytes32 \<Rightarrow> address \<Rightarrow> CredentialRegistry \<Rightarrow> CredentialRegistry" where
  "grantRole_internal env role account r =
     (if \<not> hasRole r role account
      then r\<lparr> roles := (roles r)(role := (roles r role)(account := True)),
              registryEvents := registryEvents r @ [RoleGranted role account (msg_sender env)] \<rparr>
      else r)"

definition revokeRole_internal :: "Env \<Rightarrow> bytes32 \<Rightarrow> address \<Rightarrow> CredentialRegistry \<Rightarrow> CredentialRegistry" where
  "revokeRole_internal env role account r =
     (if hasRole r role account
      then r\<lparr> roles := (roles r)(role := (roles r role)(account := False)),
              registryEvents := registryEvents r @ [RoleRevoked role account (msg_sender env)] \<rparr>
      else r)"

text \<open>The constructor grants both roles to the deployer.\<close>

definition newCredentialRegistry :: "Env \<Rightarrow> CredentialRegistry" where
  "newCredentialRegistry env =
     grantRole_internal env ISSUER_MANAGER_ROLE (msg_sender env)
       (grantRole_internal env DEFAULT_ADMIN_ROLE (msg_sender env)
          \<lparr> credentials = (\<lambda>_. False), credentialIssuers = (\<lambda>_. 0),
            revokedCredentials = (\<lambda>_. False), trustedIssuers = (\<lambda>_. False),
            issuerNames = (\<lambda>_. []), nullifierOwners = (\<lambda>_. 0),
            userToCredential = (\<lambda>_. 0), roles = (\<lambda>_ _. False),
            registryEvents = [] \<rparr>)"

definition registerCredential ::
  "Env \<Rightarrow> bytes32 \<Rightarrow> address \<Rightarrow> CredentialRegistry \<Rightarrow> error + CredentialRegistry" where
  "registerCredential env credentialHash user r =
     (if \<not> trustedIssuers r (msg_sender env) then Inl (Revert ''Not trusted issuer'')
      else if credentials r credentialHash then Inl (Revert ''Credential already exists'')
      else if revokedCredentials r credentialHash then Inl (Revert ''Credential was revoked'')
      else Inr (r\<lparr> credentials := (credentials r)(credentialHash := True),
                    credentialIssuers := (credentialIssuers r)(credentialHash := msg_sender env),
                    userToCredential := (userToCredential r)(user := credentialHash),
                    registryEvents := registryEvents r @
                      [CredentialIssued user credentialHash (msg_sender env) (block_timestamp env)] \<rparr>))"

text \<open>
  \<open>registerNullifier\<close> has no modifier and never reads \<open>msg.sender\<close>; the environment
  is an argument as for every external function.
\<close>

definition registerNullifier ::
  "Env \<Rightarrow> bytes32 \<Rightarrow> bytes32 \<Rightarrow> address \<Rightarrow> CredentialRegistry \<Rightarrow> error + CredentialRegistry" where
  "registerNullifier env nullifier credentialHash user r =
     (if \<not> credentials r credentialHash then Inl (Revert ''Credential does not exist'')
      else if revokedCredentials r credentialHash then Inl (Revert ''Credential is revoked'')
      else if nullifierOwners r nullifier = 0
      then Inr (r\<lparr> nullifierOwners := (nullifierOwners r)(nullifier := user),
                    registryEvents := registryEvents r @
                      [NullifierRegistered nullifier credentialHash user] \<rparr>)
      else if nullifierOwners r nullifier \<noteq> user
      then Inl (Revert ''Identity bound to another wallet'')
      else Inr (r\<lparr> registryEvents := registryEvents r @
                      [NullifierRegistered nullifier credentialHash user] \<rparr>))"

definition revokeCredential ::
  "Env \<Rightarrow> bytes32 \<Rightarrow> CredentialRegistry \<Rightarrow> error + CredentialRegistry" where
  "revokeCredential env credentialHash r =
     (if \<not> credentials r credentialHash then Inl (Revert ''Credential does not exist'')
      else if \<not> (credentialIssuers r credentialHash = msg_sender env
                  \<or> hasRole r DEFAULT_ADMIN_ROLE (msg_sender env))
      then Inl (Revert ''Not authorized to revoke'')
      else Inr (r\<lparr> revokedCredentials := (revokedCredentials r)(credentialHash := True),
                    registryEvents := registryEvents r @
                      [CredentialRevoked credentialHash (msg_sender env) (block_timestamp env)] \<rparr>))"

definition isCredentialValid :: "CredentialRegistry \<Rightarrow> bytes32 \<Rightarrow> bool" where
  "isCredentialValid r credentialHash \<longleftrightarrow>
     credentials r credentialHash \<and> \<not> revokedCredentials r credentialHash"

definition addIssuer ::
  "Env \<Rightarrow> address \<Rightarrow> string \<Rightarrow> CredentialRegistry \<Rightarrow> error + CredentialRegistry" where
  "addIssuer env issuer name r =
     (if \<not> hasRole r ISSUER_MANAGER_ROLE (msg_sender env)
      then Inl (AccessControlUnauthorizedAccount (msg_sender env) ISSUER_MANAGER_ROLE)
      else if trustedIssuers r issuer then Inl (Revert ''Issuer already exists'')
      else Inr (r\<lparr> trustedIssuers := (trustedIssuers r)(issuer := True),
                    issuerNames := (issuerNames r)(issuer := name),
                    registryEvents := registryEvents r @ [IssuerAdded issuer name] \<rparr>))"

definition removeIssuer ::
  "Env \<Rightarrow> address \<Rightarrow> CredentialRegistry \<Rightarrow> error + CredentialRegistry" where
  "removeIssuer env issuer r =
     (if \<not> hasRole r ISSUER_MANAGER_ROLE (msg_sender env)
      then Inl (AccessControlUnauthorizedAccount (msg_sender env) ISSUER_MANAGER_ROLE)
      else if \<not> trustedIssuers r issuer then Inl (Revert ''Issuer does not exist'')
      else Inr (r\<lparr> trustedIssuers := (trustedIssuers r)(issuer := False),
                    registryEvents := registryEvents r @ [IssuerRemoved issuer] \<rparr>))"

text \<open>
  The external functions the contract inherits from OpenZeppelin's \<open>AccessControl\<close> (a
  dependency, not a source of this repository). No role has its admin role changed, so
  the admin of every role is \<open>DEFAULT_ADMIN_ROLE\<close>. They read and write the role table
  only.
\<close>

definition grantRole ::
  "Env \<Rightarrow> bytes32 \<Rightarrow> address \<Rightarrow> CredentialRegistry \<Rightarrow> error + CredentialRegistry" where
  "grantRole env role account r =
     (if \<not> hasRole r DEFAULT_ADMIN_ROLE (msg_sender env)
      then Inl (AccessControlUnauthorizedAccount (msg_sender env) DEFAULT_ADMIN_ROLE)
      else Inr (grantRole_internal env role account r))"

definition revokeRole ::
  "Env \<Rightarrow> bytes32 \<Rightarrow> address \<Rightarrow> CredentialRegistry \<Rightarrow> error + CredentialRegistry" where
  "revokeRole env role account r =
     (if \<not> hasRole r DEFAULT_ADMIN_ROLE (msg_sender env)
      then Inl (AccessControlUnauthorizedAccount (msg_sender env) DEFAULT_ADMIN_ROLE)
      else Inr (revokeRole_internal env role account r))"

definition renounceRole ::
  "Env \<Rightarrow> bytes32 \<Rightarrow> address \<Rightarrow> CredentialRegistry \<Rightarrow> error + CredentialRegistry" where
  "renounceRole env role callerConfirmation r =
     (if callerConfirmation \<noteq> msg_sender env then Inl AccessControlBadConfirmation
      else Inr (revokeRole_internal env role callerConfirmation r))"

subsection \<open>Sequences of transactions on the registry\<close>

datatype registryCall =
    RegisterCredential bytes32 address
  | RegisterNullifier bytes32 bytes32 address
  | RevokeCredential bytes32
  | AddIssuer address string
  | RemoveIssuer address
  | GrantRole bytes32 address
  | RevokeRole bytes32 address
  | RenounceRole bytes32 address

fun dispatch :: "Env \<Rightarrow> registryCall \<Rightarrow> CredentialRegistry \<Rightarrow> error + CredentialRegistry" where
  "dispatch env (RegisterCredential h u) r = registerCredential env h u r"
| "dispatch env (RegisterNullifier n h u) r = registerNullifier env n h u r"
| "dispatch env (RevokeCredential h) r = revokeCredential env h r"
| "dispatch env (AddIssuer i name) r = addIssuer env i name r"
| "dispatch env (RemoveIssuer i) r = removeIssuer env i r"
| "dispatch env (GrantRole role acct) r = grantRole env role acct r"
| "dispatch env (RevokeRole role acct) r = revokeRole env role acct r"
| "dispatch env (RenounceRole role acct) r = renounceRole env role acct r"

text \<open>A transaction that reverts leaves the state as it was.\<close>

definition transact :: "Env \<times> registryCall \<Rightarrow> CredentialRegistry \<Rightarrow> CredentialRegistry" where
  "transact tx r = (case dispatch (fst tx) (snd tx) r of Inl e \<Rightarrow> r | Inr r' \<Rightarrow> r')"

fun run :: "(Env \<times> registryCall) list \<Rightarrow> CredentialRegistry \<Rightarrow> CredentialRegistry" where
  "run [] r = r"
| "run (tx # txs) r = run txs (transact tx r)"

subsection \<open>\<open>ProtocolAccessControl\<close>\<close>

abbreviation (input) INDEX_MIN_AGE :: nat where "INDEX_MIN_AGE \<equiv> 0"
abbreviation (input) INDEX_JURISDICTION_START :: nat where "INDEX_JURISDICTION_START \<equiv> 1"
abbreviation (input) INDEX_ACCREDITED :: nat where "INDEX_ACCREDITED \<equiv> 11"
abbreviation (input) INDEX_CREDENTIAL_HASH :: nat where "INDEX_CREDENTIAL_HASH \<equiv> 12"
abbreviation (input) INDEX_USER_ADDRESS :: nat where "INDEX_USER_ADDRESS \<equiv> 13"
abbreviation (input) INDEX_CURRENT_DATE :: nat where "INDEX_CURRENT_DATE \<equiv> 14"
abbreviation (input) INDEX_IS_VALID :: nat where "INDEX_IS_VALID \<equiv> 25"
abbreviation (input) INDEX_NULLIFIER :: nat where "INDEX_NULLIFIER \<equiv> 26"
abbreviation (input) INDEX_PACKED_FLAGS :: nat where "INDEX_PACKED_FLAGS \<equiv> 27"

record Requirements =
  minAge :: uint256
  allowedJurisdictions :: "uint256 list"
  requireAccredited :: bool
  isSet :: bool

record ProtocolAccessControl =
  protocolRequirements :: "address \<Rightarrow> Requirements"
  hasAccess :: "address \<Rightarrow> address \<Rightarrow> bool"
  userCredentials :: "address \<Rightarrow> address \<Rightarrow> bytes32"
  accessEvents :: "event list"

definition newProtocolAccessControl :: ProtocolAccessControl where
  "newProtocolAccessControl =
     \<lparr> protocolRequirements =
         (\<lambda>_. \<lparr> minAge = 0, allowedJurisdictions = [], requireAccredited = False, isSet = False \<rparr>),
       hasAccess = (\<lambda>_ _. False), userCredentials = (\<lambda>_ _. 0), accessEvents = [] \<rparr>"

definition setRequirements ::
  "Env \<Rightarrow> uint256 \<Rightarrow> uint256 list \<Rightarrow> bool \<Rightarrow> ProtocolAccessControl \<Rightarrow> error + ProtocolAccessControl" where
  "setRequirements env minAge' allowedJurisdictions' requireAccredited' p =
     (if \<not> length allowedJurisdictions' \<le> 10 then Inl (Revert ''Too many jurisdictions'')
      else Inr (p\<lparr> protocolRequirements := (protocolRequirements p)(msg_sender env :=
                      \<lparr> minAge = minAge', allowedJurisdictions = allowedJurisdictions',
                        requireAccredited = requireAccredited', isSet = True \<rparr>),
                    accessEvents := accessEvents p @
                      [RequirementsSet (msg_sender env) minAge' allowedJurisdictions'
                         requireAccredited'] \<rparr>))"

text \<open>
  The proof components \<open>uint[2] a\<close>, \<open>uint[2][2] b\<close>, \<open>uint[2] c\<close>, and the verifier
  behind \<open>IZKVerifier\<close>: an external contract, taken as a parameter. \<open>publicSignals\<close> has
  the type \<open>uint[28]\<close>: a list of 28 words, every index the contract reads being a
  constant below 28.
\<close>

type_synonym G1 = "uint256 \<times> uint256"
type_synonym G2 = "(uint256 \<times> uint256) \<times> (uint256 \<times> uint256)"
type_synonym verifier = "G1 \<Rightarrow> G2 \<Rightarrow> G1 \<Rightarrow> uint256 list \<Rightarrow> bool"

text \<open>
  The loop of \<open>verifyAndGrantAccess\<close> over the ten jurisdiction slots, from counter
  \<open>i\<close> on: the error of the first \<open>require\<close> that fails, or \<open>None\<close>.
\<close>

function jurisdictionLoop :: "nat \<Rightarrow> uint256 list \<Rightarrow> uint256 list \<Rightarrow> error option" where
  "jurisdictionLoop i publicSignals allowed =
     (if i < 10
      then (if i < length allowed
            then (if publicSignals ! (INDEX_JURISDICTION_START + i) = allowed ! i
                  then jurisdictionLoop (i + 1) publicSignals allowed
                  else Some (Revert ''Jurisdiction requirement mismatch''))
            else (if publicSignals ! (INDEX_JURISDICTION_START + i) = 0
                  then jurisdictionLoop (i + 1) publicSignals allowed
                  else Some (Revert ''Jurisdiction requirement mismatch'')))
      else None)"
  by pat_completeness auto
termination
  by (relation "measure (\<lambda>(i, publicSignals, allowed). 10 - i)") auto

declare jurisdictionLoop.simps [simp del]

text \<open>
  The \<open>require\<close>s of \<open>verifyAndGrantAccess\<close> from "Requirements not set" to the packed
  flags, in the order of the source: the error of the first that fails, or \<open>None\<close>.
\<close>

definition policyChecks ::
  "verifier \<Rightarrow> G1 \<Rightarrow> G2 \<Rightarrow> G1 \<Rightarrow> uint256 list \<Rightarrow> bytes32 \<Rightarrow> address \<Rightarrow> Requirements \<Rightarrow>
   CredentialRegistry \<Rightarrow> error option" where
  "policyChecks verifyProof a b c publicSignals credentialHash user req reg =
     (if \<not> isSet req then Some (Revert ''Requirements not set'')
      else if \<not> isCredentialValid reg credentialHash
      then Some (Revert ''Invalid or revoked credential'')
      else if \<not> verifyProof a b c publicSignals then Some (Revert ''Invalid proof'')
      else if publicSignals ! INDEX_IS_VALID \<noteq> 1
      then Some (Revert ''Circuit isValid output must be 1'')
      else if publicSignals ! INDEX_MIN_AGE \<noteq> minAge req
      then Some (Revert ''Age requirement mismatch'')
      else (case jurisdictionLoop 0 publicSignals (allowedJurisdictions req) of
              Some e \<Rightarrow> Some e
            | None \<Rightarrow>
               (let reqAccredited = (if requireAccredited req then 1 else 0);
                    truncatedHash = credentialHash AND 0xFFFFFFFFFFFFFFF;
                    packedFlags = publicSignals ! INDEX_PACKED_FLAGS
                in if publicSignals ! INDEX_ACCREDITED \<noteq> reqAccredited
                   then Some (Revert ''Accreditation requirement mismatch'')
                   else if publicSignals ! INDEX_USER_ADDRESS \<noteq> ucast user
                   then Some (Revert ''Proof not bound to this user'')
                   else if publicSignals ! INDEX_CREDENTIAL_HASH \<noteq> truncatedHash
                   then Some (Revert ''Credential hash mismatch'')
                   else if packedFlags AND 0x4 = 0 then Some (Revert ''Passport expired'')
                   else if packedFlags AND 0x8 = 0 then Some (Revert ''Nationality sanctioned'')
                   else if minAge req \<ge> 21
                   then (if packedFlags AND 0x2 = 0 then Some (Revert ''Not over 21'') else None)
                   else if minAge req \<ge> 18
                   then (if packedFlags AND 0x1 = 0 then Some (Revert ''Not over 18'') else None)
                   else None)))"

text \<open>
  The two \<open>require\<close>s on \<open>publicSignals[INDEX_CURRENT_DATE]\<close>. \<open>1 hours\<close> is 3600;
  \<open>block.timestamp - 1 hours\<close> is checked arithmetic and panics below 3600.
\<close>

definition freshnessChecks :: "Env \<Rightarrow> uint256 list \<Rightarrow> error option" where
  "freshnessChecks env publicSignals =
     (if \<not> publicSignals ! INDEX_CURRENT_DATE \<le> block_timestamp env
      then Some (Revert ''Proof date in future'')
      else if block_timestamp env < 3600 then Some (Panic 0x11)
      else if \<not> publicSignals ! INDEX_CURRENT_DATE \<ge> block_timestamp env - 3600
      then Some (Revert ''Proof too old'')
      else None)"

text \<open>
  The access-control contract together with the registry it was deployed with.
  \<open>verifyAndGrantAccess\<close> takes the verifier and the contract's own address \<open>this\<close>, the
  \<open>msg.sender\<close> of its call to the registry.
\<close>

record System =
  accessControl :: ProtocolAccessControl
  credentialRegistry :: CredentialRegistry

definition verifyAndGrantAccess ::
  "verifier \<Rightarrow> address \<Rightarrow> Env \<Rightarrow> G1 \<Rightarrow> G2 \<Rightarrow> G1 \<Rightarrow> uint256 list \<Rightarrow> bytes32 \<Rightarrow> address \<Rightarrow>
   System \<Rightarrow> error + System" where
  "verifyAndGrantAccess verifyProof this env a b c publicSignals credentialHash user s =
     (let req = protocolRequirements (accessControl s) (msg_sender env)
      in case policyChecks verifyProof a b c publicSignals credentialHash user req
                (credentialRegistry s) of
           Some e \<Rightarrow> Inl e
         | None \<Rightarrow>
            (case freshnessChecks env publicSignals of
               Some e \<Rightarrow> Inl e
             | None \<Rightarrow>
                (let nullifier = publicSignals ! INDEX_NULLIFIER
                 in case registerNullifier
                           \<lparr> msg_sender = this, block_timestamp = block_timestamp env \<rparr>
                           nullifier credentialHash user (credentialRegistry s) of
                      Inl e \<Rightarrow> Inl e
                    | Inr reg' \<Rightarrow>
                       Inr \<lparr> accessControl = (accessControl s)
                               \<lparr> hasAccess := (hasAccess (accessControl s))
                                    (msg_sender env :=
                                       (hasAccess (accessControl s) (msg_sender env))
                                         (user := True)),
                                 userCredentials := (userCredentials (accessControl s))
                                    (msg_sender env :=
                                       (userCredentials (accessControl s) (msg_sender env))
                                         (user := credentialHash)),
                                 accessEvents := accessEvents (accessControl s) @
                                    [AccessGranted user (msg_sender env) credentialHash
                                       (block_timestamp env)] \<rparr>,
                             credentialRegistry = reg' \<rparr>)))"

definition checkAccess :: "Env \<Rightarrow> address \<Rightarrow> ProtocolAccessControl \<Rightarrow> bool" where
  "checkAccess env user p = hasAccess p (msg_sender env) user"

definition revokeAccess ::
  "Env \<Rightarrow> address \<Rightarrow> ProtocolAccessControl \<Rightarrow> error + ProtocolAccessControl" where
  "revokeAccess env user p =
     (if \<not> hasAccess p (msg_sender env) user then Inl (Revert ''User does not have access'')
      else Inr (p\<lparr> hasAccess := (hasAccess p)
                      (msg_sender env := (hasAccess p (msg_sender env))(user := False)),
                    accessEvents := accessEvents p @
                      [AccessRevoked user (msg_sender env) (block_timestamp env)] \<rparr>))"

section \<open>Fixtures from the repository's tests\<close>

text \<open>The assignment of \<open>TestZKKYC_ValidCase\<close>, with the age as a parameter.\<close>

definition assignment_ValidCase :: "Variable \<Rightarrow> ZKKYC" where
  "assignment_ValidCase age =
     \<lparr> ActualAge = age, ActualJurisdiction = 1234567890, ActualAccredited = 1,
       CredentialHash = 9876543210, PassportNumber = 1357924680, ExpiryDate = 1893456000,
       MinAge = 18,
       AllowedJurisdictions = [1234567890, 1111111111, 2222222222, 0, 0, 0, 0, 0, 0, 0],
       RequireAccredited = 1, CredentialHashPublic = 9876543210, RecipientAddress = 12345,
       CurrentDate = 1740052800,
       SanctionedCountries = [1122334455, 0, 0, 0, 0, 0, 0, 0, 0, 0],
       IsValid = 1, Nullifier = 1357924680, PackedFlags = 15 \<rparr>"

text \<open>The assignments of \<open>TestZKKYC_GlobalNullifier\<close>, with the recipient as a parameter.\<close>

definition assignment_GlobalNullifier :: "Variable \<Rightarrow> ZKKYC" where
  "assignment_GlobalNullifier recipient =
     \<lparr> ActualAge = 25, ActualJurisdiction = 1, ActualAccredited = 0,
       CredentialHash = 1, PassportNumber = 12345, ExpiryDate = 1893456000,
       MinAge = 18,
       AllowedJurisdictions = [1, 0, 0, 0, 0, 0, 0, 0, 0, 0],
       RequireAccredited = 0, CredentialHashPublic = 1, RecipientAddress = recipient,
       CurrentDate = 1740052800,
       SanctionedCountries = [0, 0, 0, 0, 0, 0, 0, 0, 0, 0],
       IsValid = 1, Nullifier = 12345, PackedFlags = 15 \<rparr>"

text \<open>
  The \<open>setUp\<close> of \<open>ProtocolAccessControlTest\<close>: the deployer adds the issuer, the
  issuer registers \<open>keccak256("test-credential")\<close> for the user, the clock stands at
  one day. The deployer and the address of the access-control contract are whatever the
  test runner assigns; any two addresses do.
\<close>

definition test_deployer :: address where
  "test_deployer = 0x7FA9385bE102ac3EAc297483Dd6233D62b3e1496"

definition test_accessControl :: address where
  "test_accessControl = 0xF62849F9A0B5Bf2913b396098F7c7019b51A820a"

definition test_protocol :: address where
  "test_protocol = 0x1"

definition test_user :: address where
  "test_user = 0x2"

definition test_issuer :: address where
  "test_issuer = 0x3"

definition test_credentialHash :: bytes32 where
  "test_credentialHash = 0x55a73d93dba8ee5b7a15b343b06e78245e4a2d6fcd292156204f837866c0d5e7"

definition test_env :: "address \<Rightarrow> Env" where
  "test_env sender = \<lparr> msg_sender = sender, block_timestamp = 86400 \<rparr>"

definition setUp_registry :: CredentialRegistry where
  "setUp_registry =
     run [(test_env test_deployer, AddIssuer test_issuer ''Test KYC Provider''),
          (test_env test_issuer, RegisterCredential test_credentialHash test_user)]
       (newCredentialRegistry \<lparr> msg_sender = test_deployer, block_timestamp = 1 \<rparr>)"

text \<open>The access-control contract after the protocol has set its requirements.\<close>

definition setUp_accessControl :: "uint256 list \<Rightarrow> ProtocolAccessControl" where
  "setUp_accessControl jurisdictions =
     (case setRequirements (test_env test_protocol) 18 jurisdictions False
             newProtocolAccessControl of
        Inl e \<Rightarrow> newProtocolAccessControl
      | Inr p \<Rightarrow> p)"

definition setUp_system :: "uint256 list \<Rightarrow> System" where
  "setUp_system jurisdictions =
     \<lparr> accessControl = setUp_accessControl jurisdictions,
       credentialRegistry = setUp_registry \<rparr>"

text \<open>
  The public signals the tests submit: minimum age 18, not accredited, bound to the
  user, \<open>isValid = 1\<close>, \<open>packedFlags = 15\<close>, nullifier 0; the first two jurisdiction
  slots and the date are parameters.
\<close>

definition testSignals :: "uint256 \<Rightarrow> uint256 \<Rightarrow> uint256 \<Rightarrow> uint256 list" where
  "testSignals j0 j1 currentDate =
     [18, j0, j1, 0, 0, 0, 0, 0, 0, 0, 0, 0,
      test_credentialHash AND 0xFFFFFFFFFFFFFFF, ucast test_user, currentDate,
      0, 0, 0, 0, 0, 0, 0, 0, 0, 0, 1, 0, 15]"

text \<open>\<open>MockZKVerifier\<close> with \<open>shouldVerify = true\<close>.\<close>

definition mockVerifier :: verifier where
  "mockVerifier a b c publicSignals = True"



section \<open>Field arithmetic of the circuit\<close>

lemma fieldModulus_pos: "0 < fieldModulus"
  by (simp add: fieldModulus_def)

lemma api_Sub_zero_iff:
  assumes "inField a" "inField b"
  shows "api_Sub a b = 0 \<longleftrightarrow> a = b"
proof
  assume "api_Sub a b = 0"
  then have "fieldModulus dvd (a - b)"
    by (simp add: api_Sub_def mod_eq_0_iff_dvd)
  moreover have "\<bar>a - b\<bar> < fieldModulus"
    using assms by (auto simp: inField_def)
  ultimately show "a = b"
    using dvd_imp_le_int [of "a - b" fieldModulus] by auto
next
  assume "a = b"
  then show "api_Sub a b = 0" by (simp add: api_Sub_def)
qed

lemma slotMatch_field:
  assumes "inField actual" "inField slot"
  shows "slotMatch actual slot = (if slot \<noteq> 0 \<and> slot = actual then 1 else 0)"
proof -
  have c: "api_Cmp slot 0 = (if slot \<noteq> 0 then 1 else 0)"
    using assms(2) by (auto simp: api_Cmp_def inField_def)
  have z: "api_IsZero (api_Sub actual slot) = (if slot = actual then 1 else 0)"
    using api_Sub_zero_iff [OF assms] by (auto simp: api_IsZero_def)
  show ?thesis
    using fieldModulus_pos by (simp add: slotMatch_def c z api_Mul_def Let_def)
       (simp add: fieldModulus_def)
qed

lemma slotMatch_sentinel: "slotMatch actual 0 = 0"
  by (simp add: slotMatch_def api_Cmp_def api_Mul_def)

lemma foldl_api_Add_bits:
  assumes "\<forall>x \<in> set xs. x = 0 \<or> x = 1" "0 \<le> acc" "acc + int (length xs) < fieldModulus"
  shows "foldl api_Add acc xs = acc + sum_list xs"
  using assms
proof (induction xs arbitrary: acc)
  case Nil
  then show ?case by simp
next
  case (Cons x xs)
  have x: "x = 0 \<or> x = 1" using Cons.prems(1) by simp
  have step: "api_Add acc x = acc + x"
    using x Cons.prems(2,3) by (auto simp: api_Add_def)
  have "foldl api_Add (acc + x) xs = (acc + x) + sum_list xs"
    using x Cons.prems by (intro Cons.IH) auto
  then show ?case by (simp add: step)
qed

lemma checkJurisdiction_field:
  assumes "length allowed = 10" "inField actual" "list_all inField allowed"
  shows "checkJurisdiction actual allowed =
           (if \<exists>i<10. allowed ! i \<noteq> 0 \<and> allowed ! i = actual then 1 else 0)"
proof -
  let ?f = "\<lambda>i. (if allowed ! i \<noteq> 0 \<and> allowed ! i = actual then 1 else 0 :: int)"
  have slot: "inField (allowed ! i)" if "i < 10" for i
    using assms(1,3) that by (simp add: list_all_length)
  have m: "map (\<lambda>i. slotMatch actual (allowed ! i)) [0..<10] = map ?f [0..<10]"
    by (rule map_cong) (auto simp: slotMatch_field [OF assms(2) slot])
  have s: "foldl api_Add 0 (map ?f [0..<10]) = sum_list (map ?f [0..<10])"
    using foldl_api_Add_bits [of "map ?f [0..<10]" 0] by (auto simp: fieldModulus_def)
  have nonneg: "0 \<le> sum_list (map ?f [0..<10])"
    by (rule sum_list_nonneg) auto
  have sumset: "sum_list (map ?f [0..<10]) = sum ?f {0..<10}"
    by (simp add: sum_list_distinct_conv_sum_set)
  have pos: "0 < sum_list (map ?f [0..<10]) \<longleftrightarrow> (\<exists>i<10. allowed ! i \<noteq> 0 \<and> allowed ! i = actual)"
  proof (cases "\<exists>i<10. allowed ! i \<noteq> 0 \<and> allowed ! i = actual")
    case True
    then obtain i where i: "i < 10" "allowed ! i \<noteq> 0 \<and> allowed ! i = actual" by blast
    have "?f i \<le> sum ?f {0..<10}"
      by (rule member_le_sum) (use i(1) in auto)
    then show ?thesis using i True by (simp add: sumset)
  next
    case False
    then have "sum ?f {0..<10} = 0"
      by (intro sum.neutral) auto
    then show ?thesis using False by (simp add: sumset)
  qed
  show ?thesis
    unfolding checkJurisdiction_def Let_def m s
    using nonneg pos by (auto simp: api_Cmp_def)
qed

lemma api_Mul_zero_right: "api_Mul a 0 = 0"
  by (simp add: api_Mul_def)

lemma api_Mul_zero_left: "api_Mul 0 a = 0"
  by (simp add: api_Mul_def)

text \<open>
  The age predicate is 1 exactly for an age strictly above the minimum, and the packed
  flags are the weighted sum of the four predicates in the field.
\<close>

lemma ageValid_one_iff: "ageValid c = 1 \<longleftrightarrow> MinAge c < ActualAge c"
  by (simp add: ageValid_def api_Cmp_def fieldModulus_def)

lemma PackedFlags_field_sum:
  "PackedFlags (Define c) =
     (isOver18 c + 2 * isOver21 c + 4 * expiryValid c + 8 * isNotSanctioned c) mod fieldModulus"
proof -
  have "PackedFlags (Define c) =
      ((isOver18 c + isOver21 c * 2) + (expiryValid c * 4 + isNotSanctioned c * 8))
        mod fieldModulus"
    by (simp add: Define_def Let_def api_Add_def api_Mul_def mod_simps)
  also have "(isOver18 c + isOver21 c * 2) + (expiryValid c * 4 + isNotSanctioned c * 8) =
      isOver18 c + 2 * isOver21 c + 4 * expiryValid c + 8 * isNotSanctioned c"
    by simp
  finally show ?thesis .
qed

section \<open>The circuit's predicates\<close>

text \<open>
  C1. The age predicate is \<open>Cmp(actualAge, minAge)\<close>, which is 0 when the two are equal.
  At the assignment of \<open>TestZKKYC_ValidCase\<close> with the age lowered to the policy's
  minimum, 18, every other predicate is 1, the age predicate is 0, and the circuit
  assigns \<open>IsValid = 0\<close>: the comparison the comment of \<open>Define\<close> describes as
  \<open>actualAge >= minAge\<close> is strict.
\<close>

theorem age_equal_to_minimum_rejected:
  "ActualAge (assignment_ValidCase 18) = MinAge (assignment_ValidCase 18)
   \<and> wellFormed (assignment_ValidCase 18)
   \<and> jurisdictionValid (assignment_ValidCase 18) = 1
   \<and> isNotSanctioned (assignment_ValidCase 18) = 1
   \<and> expiryValid (assignment_ValidCase 18) = 1
   \<and> hashValid (assignment_ValidCase 18) = 1
   \<and> accreditationValid (assignment_ValidCase 18) = 1
   \<and> ageValid (assignment_ValidCase 18) = 0
   \<and> IsValid (Define (assignment_ValidCase 18)) = 0"
  by code_simp

text \<open>
  C4. At the same assignment with age 19 every predicate is 1 and \<open>IsValid = 1\<close>, but
  \<open>isOver21 = Cmp(19, 21)\<close> is \<open>-1\<close>, not 0, so \<open>PackedFlags\<close> is
  \<open>1 + 2 \<cdot> (-1) + 4 + 8 = 11\<close> in the field: bit 1 (over 21) set and bit 2 (valid
  expiry) clear, where the disclosure bits 1, 0, 1, 1 pack to 13.
\<close>

theorem packedFlags_age_19:
  "wellFormed (assignment_ValidCase 19)
   \<and> ageValid (assignment_ValidCase 19) = 1
   \<and> jurisdictionValid (assignment_ValidCase 19) = 1
   \<and> isNotSanctioned (assignment_ValidCase 19) = 1
   \<and> expiryValid (assignment_ValidCase 19) = 1
   \<and> hashValid (assignment_ValidCase 19) = 1
   \<and> accreditationValid (assignment_ValidCase 19) = 1
   \<and> IsValid (Define (assignment_ValidCase 19)) = 1
   \<and> isOver18 (assignment_ValidCase 19) = 1
   \<and> isOver21 (assignment_ValidCase 19) = fieldModulus - 1
   \<and> PackedFlags (Define (assignment_ValidCase 19)) = 11"
  by code_simp

text \<open>
  C6. The expiry predicate is \<open>Cmp(expiryDate, currentDate)\<close>: it is 1 exactly when
  the expiry date is strictly greater than the current date; when the two are equal it
  is 0 and the circuit assigns \<open>IsValid = 0\<close>; when the expiry date is the current date
  plus one it is 1. Both dates are field elements.
\<close>

theorem expiry_strict:
  assumes "inField (ExpiryDate c)" and "inField (CurrentDate c)"
  shows "(expiryValid c = 1 \<longleftrightarrow> CurrentDate c < ExpiryDate c)
       \<and> (ExpiryDate c = CurrentDate c \<longrightarrow> expiryValid c = 0 \<and> IsValid (Define c) = 0)
       \<and> (ExpiryDate c = CurrentDate c + 1 \<longrightarrow> expiryValid c = 1)"
proof -
  have one: "expiryValid c = 1 \<longleftrightarrow> CurrentDate c < ExpiryDate c"
    by (simp add: expiryValid_def api_Cmp_def fieldModulus_def)
  have zero: "expiryValid c = 0" if "ExpiryDate c = CurrentDate c"
    using that by (simp add: expiryValid_def api_Cmp_def)
  have inval: "IsValid (Define c) = 0" if "expiryValid c = 0"
    using that by (simp add: Define_def Let_def api_Mul_zero_left api_Mul_zero_right)
  show ?thesis using one zero inval by auto
qed

theorem expiry_strict_witness:
  "expiryValid ((assignment_ValidCase 28)\<lparr>ExpiryDate := 1740052800\<rparr>) = 0
   \<and> IsValid (Define ((assignment_ValidCase 28)\<lparr>ExpiryDate := 1740052800\<rparr>)) = 0
   \<and> expiryValid ((assignment_ValidCase 28)\<lparr>ExpiryDate := 1740052801\<rparr>) = 1"
proof -
  let ?c0 = "(assignment_ValidCase 28)\<lparr>ExpiryDate := 1740052800\<rparr>"
  let ?c1 = "(assignment_ValidCase 28)\<lparr>ExpiryDate := 1740052801\<rparr>"
  have f0: "inField (ExpiryDate ?c0)" "inField (CurrentDate ?c0)"
    by (simp_all add: assignment_ValidCase_def inField_def fieldModulus_def)
  have f1: "inField (ExpiryDate ?c1)" "inField (CurrentDate ?c1)"
    by (simp_all add: assignment_ValidCase_def inField_def fieldModulus_def)
  have e0: "ExpiryDate ?c0 = CurrentDate ?c0" by (simp add: assignment_ValidCase_def)
  have e1: "ExpiryDate ?c1 = CurrentDate ?c1 + 1" by (simp add: assignment_ValidCase_def)
  show ?thesis
    using expiry_strict [OF f0] expiry_strict [OF f1] e0 e1 by blast
qed

text \<open>
  C7. In \<open>checkJurisdiction\<close> a slot holding 0 contributes the match value 0 whatever
  the actual value is; the result is 1 exactly when some slot is nonzero and equal to
  the actual value, and 0 otherwise; in particular the result is 0 when the actual
  value is 0. \<open>checkSanctions\<close> calls the same function. The list has ten field
  elements.
\<close>

theorem sentinel_never_matches:
  assumes "length allowed = 10" and "inField actual" and "list_all inField allowed"
  shows "slotMatch actual 0 = 0
       \<and> checkJurisdiction actual allowed =
           (if \<exists>i<10. allowed ! i \<noteq> 0 \<and> allowed ! i = actual then 1 else 0)
       \<and> checkJurisdiction 0 allowed = 0"
proof -
  have z: "inField 0" by (simp add: inField_def fieldModulus_def)
  show ?thesis
    using checkJurisdiction_field [OF assms] checkJurisdiction_field [OF assms(1) z assms(3)]
    by (simp add: slotMatch_sentinel)
qed

theorem sentinel_never_matches_witness:
  "checkJurisdiction 0 [1234567890, 0, 0, 0, 0, 0, 0, 0, 0, 0] = 0 \<and> slotMatch 0 0 = 0"
proof -
  have l: "length [1234567890, 0, 0, 0, 0, 0, 0, 0, 0, 0 :: int] = 10" by simp
  have a: "inField 0" by (simp add: inField_def fieldModulus_def)
  have f: "list_all inField [1234567890, 0, 0, 0, 0, 0, 0, 0, 0, 0]"
    by (simp add: inField_def fieldModulus_def)
  show ?thesis using sentinel_never_matches [OF l a f] by simp
qed

text \<open>
  C8. The nullifier \<open>Define\<close> assigns is a function of \<open>PassportNumber\<close> alone: two
  circuits with the same passport number get the same nullifier, whatever their
  recipient address, policy parameters and other inputs are.
\<close>

theorem nullifier_of_passport_only:
  "PassportNumber c1 = PassportNumber c2 \<Longrightarrow> Nullifier (Define c1) = Nullifier (Define c2)"
  by (simp add: Define_def Let_def)

theorem nullifier_of_passport_only_witness:
  "RecipientAddress (assignment_GlobalNullifier 111) \<noteq> RecipientAddress (assignment_ValidCase 28\<lparr>PassportNumber := 12345\<rparr>)
   \<and> MinAge (assignment_GlobalNullifier 111) = MinAge (assignment_GlobalNullifier 222)
   \<and> Nullifier (Define (assignment_GlobalNullifier 111)) = Nullifier (Define (assignment_ValidCase 28\<lparr>PassportNumber := 12345\<rparr>))"
proof -
  have p: "PassportNumber (assignment_GlobalNullifier 111) = PassportNumber (assignment_ValidCase 28\<lparr>PassportNumber := 12345\<rparr>)"
    by (simp add: assignment_GlobalNullifier_def assignment_ValidCase_def)
  show ?thesis
    using nullifier_of_passport_only [OF p]
    by (simp add: assignment_GlobalNullifier_def assignment_ValidCase_def)
qed

section \<open>The registry\<close>





lemma registerNullifier_Inr_iff:
  "(\<exists>r'. registerNullifier env n h u r = Inr r') \<longleftrightarrow>
     isCredentialValid r h \<and> (nullifierOwners r n = 0 \<or> nullifierOwners r n = u)"
  by (auto simp: registerNullifier_def isCredentialValid_def)


lemma setUp_registry_unbound: "nullifierOwners setUp_registry 7 = 0"
  by code_simp

lemma setUp_registry_unbound0: "nullifierOwners setUp_registry 0 = 0"
  by code_simp





text \<open>
  C9. \<open>registerNullifier\<close> has no caller restriction: its result is the same for every
  \<open>msg.sender\<close> (and block timestamp), and with an existing, unrevoked credential hash
  and an unbound nullifier it succeeds and binds the nullifier to the supplied user.
\<close>

theorem registerNullifier_any_caller:
  "registerNullifier env1 n h u r = registerNullifier env2 n h u r
   \<and> (credentials r h \<and> \<not> revokedCredentials r h \<and> nullifierOwners r n = 0 \<longrightarrow>
        registerNullifier env1 n h u r =
          Inr (r\<lparr> nullifierOwners := (nullifierOwners r)(n := u),
                  registryEvents := registryEvents r @ [NullifierRegistered n h u] \<rparr>))"
  by (simp add: registerNullifier_def)

theorem registerNullifier_any_caller_witness:
  "credentials setUp_registry test_credentialHash
   \<and> \<not> revokedCredentials setUp_registry test_credentialHash
   \<and> nullifierOwners setUp_registry 7 = 0
   \<and> \<not> trustedIssuers setUp_registry 0xBAD
   \<and> \<not> hasRole setUp_registry DEFAULT_ADMIN_ROLE 0xBAD
   \<and> registerNullifier (test_env 0xBAD) 7 test_credentialHash test_user setUp_registry
       = registerNullifier (test_env test_accessControl) 7 test_credentialHash test_user
           setUp_registry
   \<and> registerNullifier (test_env 0xBAD) 7 test_credentialHash test_user setUp_registry
       = Inr (setUp_registry\<lparr> nullifierOwners := (nullifierOwners setUp_registry)(7 := test_user),
               registryEvents := registryEvents setUp_registry @
                 [NullifierRegistered 7 test_credentialHash test_user] \<rparr>)"
proof -
  have c: "credentials setUp_registry test_credentialHash"
    and r: "\<not> revokedCredentials setUp_registry test_credentialHash"
    and t: "\<not> trustedIssuers setUp_registry 0xBAD"
    and a: "\<not> hasRole setUp_registry DEFAULT_ADMIN_ROLE 0xBAD"
    by code_simp+
  show ?thesis
    using registerNullifier_any_caller
      [of "test_env 0xBAD" 7 test_credentialHash test_user setUp_registry "test_env test_accessControl"]
      c r t a setUp_registry_unbound
    by blast
qed

section \<open>\<open>verifyAndGrantAccess\<close>\<close>

lemma jurisdictionLoop_cases:
  "jurisdictionLoop i sigs js = None \<or>
   jurisdictionLoop i sigs js = Some (Revert ''Jurisdiction requirement mismatch'')"
proof (induction i sigs js rule: jurisdictionLoop.induct)
  case (1 i sigs js)
  then show ?case
    by (subst (1 2) jurisdictionLoop.simps) auto
qed

lemma jurisdictionLoop_None_iff:
  "jurisdictionLoop i sigs js = None \<longleftrightarrow>
     (\<forall>k. i \<le> k \<and> k < 10 \<longrightarrow> sigs ! (1 + k) = (if k < length js then js ! k else 0))"
proof (induction i sigs js rule: jurisdictionLoop.induct)
  case (1 i sigs js)
  show ?case
  proof (cases "i < 10")
    case False
    then show ?thesis by (subst jurisdictionLoop.simps) auto
  next
    case True
    let ?ok = "sigs ! (1 + i) = (if i < length js then js ! i else 0)"
    show ?thesis
    proof (cases ?ok)
      case ok: True
      have "jurisdictionLoop i sigs js = jurisdictionLoop (i + 1) sigs js"
        using True ok by (subst jurisdictionLoop.simps) (auto split: if_splits)
      moreover have "jurisdictionLoop (i + 1) sigs js = None \<longleftrightarrow>
          (\<forall>k. i + 1 \<le> k \<and> k < 10 \<longrightarrow> sigs ! (1 + k) = (if k < length js then js ! k else 0))"
        using True ok "1.IH" by (auto split: if_splits)
      moreover have "(\<forall>k. i \<le> k \<and> k < 10 \<longrightarrow> sigs ! (1 + k) = (if k < length js then js ! k else 0))
          \<longleftrightarrow> (\<forall>k. i + 1 \<le> k \<and> k < 10 \<longrightarrow> sigs ! (1 + k) = (if k < length js then js ! k else 0))"
      proof -
        have "k = i \<or> i + 1 \<le> k" if "i \<le> k" for k using that by auto
        then show ?thesis using ok by (metis Suc_eq_plus1 Suc_leD)
      qed
      ultimately show ?thesis by simp
    next
      case bad: False
      have "jurisdictionLoop i sigs js = Some (Revert ''Jurisdiction requirement mismatch'')"
        using True bad by (subst jurisdictionLoop.simps) (auto split: if_splits)
      moreover have "\<not> (\<forall>k. i \<le> k \<and> k < 10 \<longrightarrow> sigs ! (1 + k) = (if k < length js then js ! k else 0))"
        using True bad by blast
      ultimately show ?thesis by simp
    qed
  qed
qed



lemma window_61:
  fixes ts :: uint256
  assumes "3660 \<le> ts"
  shows "ts - 3660 \<le> ts" "\<not> ts < 3600" "\<not> ts - 3600 \<le> ts - 3660"
proof -
  have u: "3660 \<le> unat ts" using assms by (simp add: word_le_nat_alt)
  have a: "(3600::uint256) \<le> ts" using u by (simp add: word_le_nat_alt)
  have s1: "unat (ts - 3660) = unat ts - 3660" using assms by (simp add: unat_sub)
  have s2: "unat (ts - 3600) = unat ts - 3600" using a by (simp add: unat_sub)
  show "ts - 3660 \<le> ts" using s1 by (simp add: word_le_nat_alt)
  show "\<not> ts < 3600" using a by simp
  show "\<not> ts - 3600 \<le> ts - 3660" using s1 s2 u by (simp add: word_le_nat_alt)
qed

lemma window_59:
  fixes ts :: uint256
  assumes "3600 \<le> ts"
  shows "ts - 3540 \<le> ts" "\<not> ts < 3600" "ts - 3600 \<le> ts - 3540"
proof -
  have u: "3600 \<le> unat ts" using assms by (simp add: word_le_nat_alt)
  have a: "(3540::uint256) \<le> ts" using u by (simp add: word_le_nat_alt)
  have s1: "unat (ts - 3540) = unat ts - 3540" using a by (simp add: unat_sub)
  have s2: "unat (ts - 3600) = unat ts - 3600" using assms by (simp add: unat_sub)
  show "ts - 3540 \<le> ts" using s1 by (simp add: word_le_nat_alt)
  show "\<not> ts < 3600" using assms by simp
  show "ts - 3600 \<le> ts - 3540" using s1 s2 u by (simp add: word_le_nat_alt)
qed

lemma freshnessChecks_None_iff:
  "freshnessChecks env sigs = None \<longleftrightarrow>
     sigs ! 14 \<le> block_timestamp env \<and> 3600 \<le> block_timestamp env \<and>
     block_timestamp env - 3600 \<le> sigs ! 14"
  by (auto simp: freshnessChecks_def)

lemma verifyAndGrantAccess_Inr_iff:
  "(\<exists>s'. verifyAndGrantAccess V this env a b c sigs h u s = Inr s') \<longleftrightarrow>
     policyChecks V a b c sigs h u (protocolRequirements (accessControl s) (msg_sender env))
        (credentialRegistry s) = None \<and>
     freshnessChecks env sigs = None \<and>
     (\<exists>r'. registerNullifier \<lparr>msg_sender = this, block_timestamp = block_timestamp env\<rparr>
              (sigs ! 26) h u (credentialRegistry s) = Inr r')"
  by (auto simp: verifyAndGrantAccess_def Let_def split: option.splits sum.splits)

lemma policyChecks_None_valid:
  "policyChecks V a b c sigs h u req reg = None \<Longrightarrow> isCredentialValid reg h"
  by (auto simp: policyChecks_def split: if_splits)

lemma verifyAndGrantAccess_grants:
  "verifyAndGrantAccess V this env a b c sigs h u s = Inr s' \<Longrightarrow>
     hasAccess (accessControl s') (msg_sender env) u"
  by (auto simp: verifyAndGrantAccess_def Let_def split: option.splits sum.splits)

text \<open>
  The only effect of \<open>verifyAndGrantAccess\<close> on the registry is that of its call to
  \<open>registerNullifier\<close>, so every change of the registry is a registry transaction.
\<close>

lemma verifyAndGrantAccess_registry:
  assumes "verifyAndGrantAccess V this env a b c sigs h u s = Inr s'"
  shows "registerNullifier \<lparr> msg_sender = this, block_timestamp = block_timestamp env \<rparr>
           (sigs ! 26) h u (credentialRegistry s) = Inr (credentialRegistry s')"
  using assms
  by (auto simp: verifyAndGrantAccess_def Let_def split: option.splits sum.splits)



text \<open>
  C3. The jurisdiction comparison of \<open>verifyAndGrantAccess\<close> is exact: a call that
  succeeds has, for each slot \<open>i\<close> of 0..9, \<open>publicSignals[1 + i]\<close> equal to the
  caller's \<open>allowedJurisdictions[i]\<close> when \<open>i\<close> is below the list's length and equal to
  0 otherwise; and when the checks before the loop pass (requirements set, credential
  valid, proof accepted, \<open>isValid = 1\<close>, minimum age equal) and some slot differs, the call
  reverts with "Jurisdiction requirement mismatch", so no state changes.
\<close>

theorem jurisdictions_exact_match:
  "(verifyAndGrantAccess V this env a b c sigs h u s = Inr s' \<longrightarrow>
      (\<forall>i<10. sigs ! (1 + i) =
         (if i < length (allowedJurisdictions
                           (protocolRequirements (accessControl s) (msg_sender env)))
          then allowedJurisdictions
                 (protocolRequirements (accessControl s) (msg_sender env)) ! i
          else 0)))
   \<and> (isSet (protocolRequirements (accessControl s) (msg_sender env)) \<and>
      isCredentialValid (credentialRegistry s) h \<and> V a b c sigs \<and> sigs ! 25 = 1 \<and>
      sigs ! 0 = minAge (protocolRequirements (accessControl s) (msg_sender env)) \<and>
      (\<exists>i<10. sigs ! (1 + i) \<noteq>
         (if i < length (allowedJurisdictions
                           (protocolRequirements (accessControl s) (msg_sender env)))
          then allowedJurisdictions
                 (protocolRequirements (accessControl s) (msg_sender env)) ! i
          else 0)) \<longrightarrow>
        verifyAndGrantAccess V this env a b c sigs h u s =
          Inl (Revert ''Jurisdiction requirement mismatch''))"
proof -
  define req where "req = protocolRequirements (accessControl s) (msg_sender env)"
  define expected where
    "expected = (\<lambda>i. if i < length (allowedJurisdictions req)
                     then allowedJurisdictions req ! i else 0)"
  let ?loop = "jurisdictionLoop 0 sigs (allowedJurisdictions req)"
  have iff: "?loop = None \<longleftrightarrow> (\<forall>i<10. sigs ! (1 + i) = expected i)"
    by (simp add: jurisdictionLoop_None_iff expected_def)
  have A: "\<forall>i<10. sigs ! (1 + i) = expected i"
    if "verifyAndGrantAccess V this env a b c sigs h u s = Inr s'"
  proof -
    have "policyChecks V a b c sigs h u req (credentialRegistry s) = None"
      using that verifyAndGrantAccess_Inr_iff [of V this env a b c sigs h u s]
      by (auto simp: req_def)
    then have "?loop = None"
      by (auto simp: policyChecks_def split: if_splits option.splits)
    then show ?thesis using iff by simp
  qed
  have B: "verifyAndGrantAccess V this env a b c sigs h u s =
              Inl (Revert ''Jurisdiction requirement mismatch'')"
    if "isSet req" "isCredentialValid (credentialRegistry s) h" "V a b c sigs"
       "sigs ! 25 = 1" "sigs ! 0 = minAge req" "\<exists>i<10. sigs ! (1 + i) \<noteq> expected i"
  proof -
    have "?loop \<noteq> None" using that(6) iff by auto
    then have "?loop = Some (Revert ''Jurisdiction requirement mismatch'')"
      using jurisdictionLoop_cases [of 0 sigs "allowedJurisdictions req"] by auto
    then have "policyChecks V a b c sigs h u req (credentialRegistry s) =
        Some (Revert ''Jurisdiction requirement mismatch'')"
      using that(1-5) by (simp add: policyChecks_def)
    then show ?thesis by (simp add: verifyAndGrantAccess_def req_def)
  qed
  show ?thesis
    using A B unfolding expected_def req_def by blast
qed

theorem jurisdictions_exact_match_witness:
  "\<not> isl (verifyAndGrantAccess mockVerifier test_accessControl (test_env test_protocol)
        (1, 2) ((3, 4), (5, 6)) (7, 8) (testSignals 1234567890 1111111111 86400)
        test_credentialHash test_user (setUp_system [1234567890, 1111111111]))
   \<and> testSignals 1234567890 1111111111 86400 ! (1 + 1) = [1234567890, 1111111111] ! 1
   \<and> testSignals 1234567890 1111111111 86400 ! (1 + 9) = 0
   \<and> verifyAndGrantAccess mockVerifier test_accessControl (test_env test_protocol)
        (1, 2) ((3, 4), (5, 6)) (7, 8) (testSignals 1111111111 1234567890 86400)
        test_credentialHash test_user (setUp_system [1234567890, 1111111111])
      = Inl (Revert ''Jurisdiction requirement mismatch'')
   \<and> verifyAndGrantAccess mockVerifier test_accessControl (test_env test_protocol)
        (1, 2) ((3, 4), (5, 6)) (7, 8) (testSignals 1234567890 0 86400)
        test_credentialHash test_user (setUp_system [1234567890, 1111111111])
      = Inl (Revert ''Jurisdiction requirement mismatch'')
   \<and> verifyAndGrantAccess mockVerifier test_accessControl (test_env test_protocol)
        (1, 2) ((3, 4), (5, 6)) (7, 8) (testSignals 1234567890 1111111111 86400)
        test_credentialHash test_user (setUp_system [1234567890])
      = Inl (Revert ''Jurisdiction requirement mismatch'')"
proof -
  let ?call = "verifyAndGrantAccess mockVerifier test_accessControl (test_env test_protocol)
        (1, 2) ((3, 4), (5, 6)) (7, 8)"
  let ?two = "setUp_system [1234567890, 1111111111]"
  let ?one = "setUp_system [1234567890]"
  have js2: "allowedJurisdictions (protocolRequirements (accessControl ?two)
               (msg_sender (test_env test_protocol))) = [1234567890, 1111111111]"
    and js1: "allowedJurisdictions (protocolRequirements (accessControl ?one)
               (msg_sender (test_env test_protocol))) = [1234567890]"
    by code_simp+
  have ok: "\<not> isl (?call (testSignals 1234567890 1111111111 86400) test_credentialHash
               test_user ?two)"
    by code_simp
  then obtain s' where s': "?call (testSignals 1234567890 1111111111 86400)
      test_credentialHash test_user ?two = Inr s'"
    by (cases "?call (testSignals 1234567890 1111111111 86400) test_credentialHash
      test_user ?two") auto
  have pre2: "isSet (protocolRequirements (accessControl ?two) (msg_sender (test_env test_protocol)))"
    "isCredentialValid (credentialRegistry ?two) test_credentialHash"
    by code_simp+
  have age2: "testSignals j0 j1 d ! 0 =
      minAge (protocolRequirements (accessControl ?two) (msg_sender (test_env test_protocol)))"
    for j0 j1 d
  proof -
    have "minAge (protocolRequirements (accessControl ?two)
            (msg_sender (test_env test_protocol))) = 18"
      by code_simp
    then show ?thesis by (simp add: testSignals_def)
  qed
  have pre1: "isSet (protocolRequirements (accessControl ?one) (msg_sender (test_env test_protocol)))"
    "isCredentialValid (credentialRegistry ?one) test_credentialHash"
    by code_simp+
  have age1: "testSignals j0 j1 d ! 0 =
      minAge (protocolRequirements (accessControl ?one) (msg_sender (test_env test_protocol)))"
    for j0 j1 d
  proof -
    have "minAge (protocolRequirements (accessControl ?one)
            (msg_sender (test_env test_protocol))) = 18"
      by code_simp
    then show ?thesis by (simp add: testSignals_def)
  qed
  have v: "mockVerifier (1, 2) ((3, 4), (5, 6)) (7, 8) sigs" for sigs
    by (simp add: mockVerifier_def)
  have sg: "testSignals j0 j1 d ! 25 = 1" for j0 j1 d
    by (simp add: testSignals_def)
  have reorder: "\<exists>i<10. testSignals 1111111111 1234567890 86400 ! (1 + i) \<noteq>
      (if i < length [1234567890, 1111111111 :: uint256]
       then [1234567890, 1111111111] ! i else 0)"
    by (rule exI [of _ 0]) (simp add: testSignals_def)
  have subset: "\<exists>i<10. testSignals 1234567890 0 86400 ! (1 + i) \<noteq>
      (if i < length [1234567890, 1111111111 :: uint256]
       then [1234567890, 1111111111] ! i else 0)"
    by (rule exI [of _ 1]) (simp add: testSignals_def)
  have padding: "\<exists>i<10. testSignals 1234567890 1111111111 86400 ! (1 + i) \<noteq>
      (if i < length [1234567890 :: uint256] then [1234567890] ! i else 0)"
    by (rule exI [of _ 1]) (simp add: testSignals_def)
  note t2 = jurisdictions_exact_match [of mockVerifier test_accessControl "test_env test_protocol"
        "(1, 2)" "((3, 4), (5, 6))" "(7, 8)" _ test_credentialHash test_user ?two, unfolded js2]
  note t1 = jurisdictions_exact_match [of mockVerifier test_accessControl "test_env test_protocol"
        "(1, 2)" "((3, 4), (5, 6))" "(7, 8)" _ test_credentialHash test_user ?one, unfolded js1]
  have m: "\<forall>i<10. testSignals 1234567890 1111111111 86400 ! (1 + i) =
         (if i < length [1234567890, 1111111111 :: uint256]
          then [1234567890, 1111111111] ! i else 0)"
    using t2 [THEN conjunct1] s' by blast
  have m1: "testSignals 1234567890 1111111111 86400 ! (1 + 1) = [1234567890, 1111111111] ! 1"
    using m [rule_format, of 1] by simp
  have m9: "testSignals 1234567890 1111111111 86400 ! (1 + 9) = 0"
    using m [rule_format, of 9] by simp
  have r1: "?call (testSignals 1111111111 1234567890 86400) test_credentialHash test_user ?two
      = Inl (Revert ''Jurisdiction requirement mismatch'')"
    by (rule t2 [THEN conjunct2, rule_format]) (intro conjI pre2 v sg age2 reorder)
  have r2: "?call (testSignals 1234567890 0 86400) test_credentialHash test_user ?two
      = Inl (Revert ''Jurisdiction requirement mismatch'')"
    by (rule t2 [THEN conjunct2, rule_format]) (intro conjI pre2 v sg age2 subset)
  have r3: "?call (testSignals 1234567890 1111111111 86400) test_credentialHash test_user ?one
      = Inl (Revert ''Jurisdiction requirement mismatch'')"
    by (rule t1 [THEN conjunct2, rule_format]) (intro conjI pre1 v sg age1 padding)
  show ?thesis using ok m1 m9 r1 r2 r3 by blast
qed

text \<open>
  C5. The freshness window has inclusive bounds. A call that succeeds has
  \<open>publicSignals[14]\<close> at most the block timestamp and at least the timestamp minus
  3600 (the subtraction is checked, so the timestamp is at least 3600). When every other
  check passes (the \<open>require\<close>s before the date, and the nullifier unbound or bound to
  the user): with a timestamp of at least one hour the call succeeds exactly when the
  date lies in the window; a date of the timestamp minus 61 minutes reverts with "Proof
  too old"; a date of the timestamp minus 59 minutes succeeds and grants access.
\<close>

theorem freshness_window:
  "(verifyAndGrantAccess V this env a b c sigs h u s = Inr s' \<longrightarrow>
      sigs ! 14 \<le> block_timestamp env \<and> 3600 \<le> block_timestamp env \<and>
      block_timestamp env - 3600 \<le> sigs ! 14)
   \<and> (policyChecks V a b c sigs h u (protocolRequirements (accessControl s) (msg_sender env))
         (credentialRegistry s) = None \<and>
      (nullifierOwners (credentialRegistry s) (sigs ! 26) = 0 \<or>
       nullifierOwners (credentialRegistry s) (sigs ! 26) = u) \<longrightarrow>
        (3600 \<le> block_timestamp env \<longrightarrow>
           ((\<exists>s'. verifyAndGrantAccess V this env a b c sigs h u s = Inr s') \<longleftrightarrow>
              sigs ! 14 \<le> block_timestamp env \<and> block_timestamp env - 3600 \<le> sigs ! 14))
      \<and> (3660 \<le> block_timestamp env \<and> sigs ! 14 = block_timestamp env - 3660 \<longrightarrow>
           verifyAndGrantAccess V this env a b c sigs h u s = Inl (Revert ''Proof too old''))
      \<and> (3600 \<le> block_timestamp env \<and> sigs ! 14 = block_timestamp env - 3540 \<longrightarrow>
           (\<exists>s'. verifyAndGrantAccess V this env a b c sigs h u s = Inr s' \<and>
                 hasAccess (accessControl s') (msg_sender env) u)))"
proof -
  define now where "now = block_timestamp env"
  define others where "others \<longleftrightarrow>
    policyChecks V a b c sigs h u (protocolRequirements (accessControl s) (msg_sender env))
       (credentialRegistry s) = None \<and>
    (nullifierOwners (credentialRegistry s) (sigs ! 26) = 0 \<or>
     nullifierOwners (credentialRegistry s) (sigs ! 26) = u)"
  have A: "sigs ! 14 \<le> now \<and> 3600 \<le> now \<and> now - 3600 \<le> sigs ! 14"
    if "verifyAndGrantAccess V this env a b c sigs h u s = Inr s'"
    using that verifyAndGrantAccess_Inr_iff [of V this env a b c sigs h u s]
    by (auto simp: freshnessChecks_None_iff now_def)
  have B: "(\<exists>s'. verifyAndGrantAccess V this env a b c sigs h u s = Inr s') \<longleftrightarrow>
        freshnessChecks env sigs = None" if others
    using that policyChecks_None_valid [of V a b c sigs h u _ "credentialRegistry s"]
    unfolding verifyAndGrantAccess_Inr_iff registerNullifier_Inr_iff others_def by blast
  have C: "verifyAndGrantAccess V this env a b c sigs h u s = Inl (Revert ''Proof too old'')"
    if "others" "3660 \<le> now" "sigs ! 14 = now - 3660"
  proof -
    have "freshnessChecks env sigs = Some (Revert ''Proof too old'')"
      using window_61 [OF that(2)] that(3) by (simp add: freshnessChecks_def now_def)
    then show ?thesis
      using that(1) by (simp add: verifyAndGrantAccess_def others_def)
  qed
  have D: "\<exists>s'. verifyAndGrantAccess V this env a b c sigs h u s = Inr s' \<and>
                  hasAccess (accessControl s') (msg_sender env) u"
    if o: "others" and t: "3600 \<le> now" and d: "sigs ! 14 = now - 3540"
  proof -
    have "freshnessChecks env sigs = None"
      using window_59 [OF t] d by (simp add: freshnessChecks_def now_def)
    then obtain s' where "verifyAndGrantAccess V this env a b c sigs h u s = Inr s'"
      using B [OF o] by blast
    then show ?thesis using verifyAndGrantAccess_grants by blast
  qed
  have E: "(\<exists>s'. verifyAndGrantAccess V this env a b c sigs h u s = Inr s') \<longleftrightarrow>
              sigs ! 14 \<le> now \<and> now - 3600 \<le> sigs ! 14" if "others" "3600 \<le> now"
    using B [OF that(1)] that(2) by (simp add: freshnessChecks_None_iff now_def)
  show ?thesis
    using A C D E unfolding others_def now_def by blast
qed

theorem freshness_window_witness:
  "verifyAndGrantAccess mockVerifier test_accessControl (test_env test_protocol)
        (1, 2) ((3, 4), (5, 6)) (7, 8) (testSignals 1234567890 0 (86400 - 3660))
        test_credentialHash test_user (setUp_system [1234567890])
      = Inl (Revert ''Proof too old'')
   \<and> (\<exists>s'. verifyAndGrantAccess mockVerifier test_accessControl (test_env test_protocol)
        (1, 2) ((3, 4), (5, 6)) (7, 8) (testSignals 1234567890 0 (86400 - 3540))
        test_credentialHash test_user (setUp_system [1234567890]) = Inr s'
         \<and> hasAccess (accessControl s') (msg_sender (test_env test_protocol)) test_user)"
proof -
  let ?env = "test_env test_protocol"
  let ?sys = "setUp_system [1234567890]"
  let ?old = "testSignals 1234567890 0 (86400 - 3660)"
  let ?new = "testSignals 1234567890 0 (86400 - 3540)"
  have p_old: "policyChecks mockVerifier (1, 2) ((3, 4), (5, 6)) (7, 8) ?old
             test_credentialHash test_user
             (protocolRequirements (accessControl ?sys) (msg_sender ?env))
             (credentialRegistry ?sys) = None"
    by code_simp
  have p_new: "policyChecks mockVerifier (1, 2) ((3, 4), (5, 6)) (7, 8) ?new
             test_credentialHash test_user
             (protocolRequirements (accessControl ?sys) (msg_sender ?env))
             (credentialRegistry ?sys) = None"
    by code_simp
  have n_old: "nullifierOwners (credentialRegistry ?sys) (?old ! 26) = 0"
    by code_simp
  have n_new: "nullifierOwners (credentialRegistry ?sys) (?new ! 26) = 0"
    by code_simp
  have t_old: "3660 \<le> block_timestamp ?env" and t_new: "3600 \<le> block_timestamp ?env"
    by (simp_all add: test_env_def)
  have d_old: "?old ! 14 = block_timestamp ?env - 3660"
    and d_new: "?new ! 14 = block_timestamp ?env - 3540"
    by (simp_all add: testSignals_def test_env_def)
  show ?thesis
    using freshness_window [of mockVerifier test_accessControl ?env "(1, 2)" "((3, 4), (5, 6))"
        "(7, 8)" ?old test_credentialHash test_user ?sys]
      freshness_window [of mockVerifier test_accessControl ?env "(1, 2)" "((3, 4), (5, 6))"
        "(7, 8)" ?new test_credentialHash test_user ?sys]
      p_old p_new n_old n_new t_old t_new d_old d_new
    by blast
qed

end
